theory Spec2Isabelle
  imports
    Complex_Main
    "HOL-Library.Multiset"
    "HOL-Library.Char_ord"
    "HOL-Library.List_Lexorder"
begin

section \<open>Error analysis: \<open>calculate_cdf\<close>\<close>

text \<open>
  The source (\<open>my_functions.py\<close>, lines 137 to 140):
  \<^verbatim>\<open>
  def calculate_cdf(errors):
      sorted_errors = np.sort(errors)
      cdf = np.cumsum(sorted_errors) / np.sum(sorted_errors)
      return sorted_errors, cdf
  \<close>
  The errors are an array of float64 values. A value is a finite number, an infinity or
  \<open>nan\<close>; the two zeros are not told apart.
\<close>

datatype npfloat = Finite real | PosInf | NegInf | NaN

fun is_finite :: "npfloat \<Rightarrow> bool" where
  "is_finite (Finite x) = True"
| "is_finite PosInf = False"
| "is_finite NegInf = False"
| "is_finite NaN = False"

text \<open>
  float64 arithmetic rounds the exact result of an operation to the nearest float64 value.
  \<open>max_float\<close> is the largest finite one, \<open>(2 - 2\<^sup>-\<^sup>5\<^sup>2) * 2\<^sup>1\<^sup>0\<^sup>2\<^sup>3\<close>. An exact result
  that reaches \<open>2\<^sup>1\<^sup>0\<^sup>2\<^sup>4 - 2\<^sup>9\<^sup>7\<^sup>0\<close>, half a unit in the last place above \<open>max_float\<close>,
  rounds to an infinity: this overflow is part of the model. Below that the model keeps
  the exact result: the rounding error of an operation (a relative \<open>2\<^sup>-\<^sup>5\<^sup>3\<close> at most) is
  not in the model, which is the tolerance the claims allow for.
\<close>

definition max_float :: real where
  "max_float = 2 ^ 1024 - 2 ^ 971"

definition overflow_threshold :: real where
  "overflow_threshold = 2 ^ 1024 - 2 ^ 970"

definition round_float :: "real \<Rightarrow> npfloat" where
  "round_float x =
     (if overflow_threshold \<le> x then PosInf
      else if x \<le> - overflow_threshold then NegInf
      else Finite x)"

text \<open>
  Addition and division of float64 values, with the IEEE results for infinities, \<open>nan\<close>
  and a zero divisor. numpy returns these values (with a warning) and raises nothing.
\<close>

fun np_add :: "npfloat \<Rightarrow> npfloat \<Rightarrow> npfloat" where
  "np_add NaN b = NaN"
| "np_add a NaN = NaN"
| "np_add PosInf NegInf = NaN"
| "np_add NegInf PosInf = NaN"
| "np_add PosInf b = PosInf"
| "np_add a PosInf = PosInf"
| "np_add NegInf b = NegInf"
| "np_add a NegInf = NegInf"
| "np_add (Finite x) (Finite y) = round_float (x + y)"

fun true_divide :: "npfloat \<Rightarrow> npfloat \<Rightarrow> npfloat" where
  "true_divide NaN b = NaN"
| "true_divide a NaN = NaN"
| "true_divide PosInf PosInf = NaN"
| "true_divide PosInf NegInf = NaN"
| "true_divide NegInf PosInf = NaN"
| "true_divide NegInf NegInf = NaN"
| "true_divide (Finite x) PosInf = Finite 0"
| "true_divide (Finite x) NegInf = Finite 0"
| "true_divide PosInf (Finite y) = (if 0 \<le> y then PosInf else NegInf)"
| "true_divide NegInf (Finite y) = (if 0 \<le> y then NegInf else PosInf)"
| "true_divide (Finite x) (Finite y) =
     (if y \<noteq> 0 then round_float (x / y)
      else if 0 < x then PosInf
      else if x < 0 then NegInf
      else NaN)"

text \<open>
  The order \<open>np.sort\<close> arranges an array by: ascending, with \<open>nan\<close> after every other
  value. (It is the order of sorting only; the IEEE comparison with \<open>nan\<close> is never true.)
\<close>

instantiation npfloat :: linorder
begin

fun less_eq_npfloat :: "npfloat \<Rightarrow> npfloat \<Rightarrow> bool" where
  "less_eq_npfloat NegInf b = True"
| "less_eq_npfloat a NaN = True"
| "less_eq_npfloat NaN b = False"
| "less_eq_npfloat a NegInf = False"
| "less_eq_npfloat a PosInf = True"
| "less_eq_npfloat PosInf b = False"
| "less_eq_npfloat (Finite x) (Finite y) = (x \<le> y)"

definition less_npfloat :: "npfloat \<Rightarrow> npfloat \<Rightarrow> bool" where
  "less_npfloat a b = (a \<le> b \<and> \<not> b \<le> a)"

instance
proof
  fix a b c :: npfloat
  show "(a < b) = (a \<le> b \<and> \<not> b \<le> a)" by (simp add: less_npfloat_def)
  show "a \<le> a" by (cases a) simp_all
  show "a \<le> b \<Longrightarrow> b \<le> c \<Longrightarrow> a \<le> c"
    by (cases a; cases b; cases c) simp_all
  show "a \<le> b \<Longrightarrow> b \<le> a \<Longrightarrow> a = b"
    by (cases a; cases b) simp_all
  show "a \<le> b \<or> b \<le> a"
    by (cases a; cases b) auto
qed

end

text \<open>
  \<open>np.sort\<close>, \<open>np.cumsum\<close> (the first output is the first element, each further output
  adds the next element to the previous output) and \<open>np.sum\<close>. numpy adds the elements of
  a long array in blocks rather than one after the other; in the model an addition of
  non-negative values is exact until it overflows and stays infinite afterwards, so that
  the order of the additions does not change their total (\<open>np_sum_round\<close> below).
\<close>

definition np_sort :: "npfloat list \<Rightarrow> npfloat list" where
  "np_sort a = sort a"

fun cumsum_from :: "npfloat \<Rightarrow> npfloat list \<Rightarrow> npfloat list" where
  "cumsum_from acc [] = []"
| "cumsum_from acc (x # xs) = np_add acc x # cumsum_from (np_add acc x) xs"

fun np_cumsum :: "npfloat list \<Rightarrow> npfloat list" where
  "np_cumsum [] = []"
| "np_cumsum (x # xs) = x # cumsum_from x xs"

definition np_sum :: "npfloat list \<Rightarrow> npfloat" where
  "np_sum a = foldl np_add (Finite 0) a"

text \<open>The array divided by the scalar: the division is done once per element.\<close>

definition calculate_cdf :: "npfloat list \<Rightarrow> npfloat list \<times> npfloat list" where
  "calculate_cdf errors =
     (let sorted_errors = np_sort errors;
          cdf = map (\<lambda>c. true_divide c (np_sum sorted_errors)) (np_cumsum sorted_errors)
      in (sorted_errors, cdf))"

text \<open>
  For the statements: the exact running sums of a list of reals, the sum of a list of
  float64 values added one after the other, and the value \<open>2\<^sup>1\<^sup>0\<^sup>2\<^sup>3\<close>, half the range of
  float64: a finite float64 whose double is not, and a bound on an exact total under
  which no float64 sum of non-negative values overflows, whatever the rounding adds.
\<close>

fun running_sums :: "real \<Rightarrow> real list \<Rightarrow> real list" where
  "running_sums a [] = []"
| "running_sums a (x # xs) = (a + x) # running_sums (a + x) xs"


definition two_1023 :: real where
  "two_1023 = 2 ^ 1023"

section \<open>Errors and tables\<close>

text \<open>
  The source raises one exception of its own (the \<open>ValueError\<close> of \<open>train\<close>) and can
  raise \<open>IndexError\<close> from \<open>self.hidden_layers[0]\<close>. Every other failure comes out of a
  library call (\<open>os.listdir\<close>, \<open>pd.read_csv\<close>, \<open>to_csv\<close>, \<open>fit\<close>); the library's own
  exception is carried as \<open>LibraryError\<close>, so that it cannot be mistaken for the source's.
\<close>

datatype 'e error = IndexError | ValueError string | LibraryError 'e

text \<open>
  A table has the four columns \<open>input_X, input_Y, expected_X, expected_Y\<close>
  (\<open>pd.read_csv(file_path, names=columns)\<close> always yields these four). A cell is a number
  or missing (\<open>NaN\<close>), the latter being \<open>None\<close>. A \<open>DataFrame\<close> is the list of its rows.
\<close>

type_synonym cell = "real option"

record row =
  input_X :: cell
  input_Y :: cell
  expected_X :: cell
  expected_Y :: cell

type_synonym DataFrame = "row list"

section \<open>The model wrapper: \<open>NeuralNetworkModel\<close>\<close>

text \<open>
  The network itself belongs to the deep-learning library. The model keeps what the source
  hands to it: the layers in the order they are added (\<open>Dense units activation
  kernel_initializer\<close>), the arguments of \<open>compile\<close>, and the learned parameters as an
  opaque value of type \<open>'w\<close>.
\<close>

datatype layer = Input int | Dense int string string

datatype optimizer = Adam real | SGD real real

record compile_config =
  optimizer :: optimizer
  loss :: string
  metrics :: "string list"

record 'w Sequential =
  layers :: "layer list"
  compiled :: "compile_config option"
  weights :: 'w

text \<open>
  The attributes \<open>__init__\<close> stores (lines 53 to 62), and the object once \<open>self.model\<close> is
  set (line 63).
\<close>

record config =
  hidden_layers :: "int list"
  activation_function :: string
  activation_function_out :: string
  weight_init_method :: string
  num_of_inputs_neurons :: int
  num_of_outputs_neurons :: int
  epochs :: int
  learning_rate :: real
  optimizer_type :: string
  momentum :: real

record 'w NeuralNetworkModel = config +
  model :: "'w Sequential"

text \<open>
  The layer constructors and \<open>Sequential.add\<close> belong to the library and validate their
  arguments: each may raise (a non-positive width, an unknown activation or initializer
  name, a layer that does not fit). What they refuse is not in the source, so the
  library's checks are parameters of the model: each tells, for the arguments it is
  given, the exception the library raises, or \<open>None\<close> when it accepts them.
\<close>

record 'e keras =
  Input_raises :: "int \<Rightarrow> 'e option"
  Dense_raises :: "int \<Rightarrow> string \<Rightarrow> string \<Rightarrow> 'e option"
  add_raises :: "layer list \<Rightarrow> layer \<Rightarrow> 'e option"

definition new_Input :: "'e keras \<Rightarrow> int \<Rightarrow> 'e error + layer" where
  "new_Input lib n =
     (case Input_raises lib n of Some e \<Rightarrow> Inl (LibraryError e) | None \<Rightarrow> Inr (Input n))"

definition new_Dense :: "'e keras \<Rightarrow> int \<Rightarrow> string \<Rightarrow> string \<Rightarrow> 'e error + layer" where
  "new_Dense lib units activation kernel_initializer =
     (case Dense_raises lib units activation kernel_initializer of
        Some e \<Rightarrow> Inl (LibraryError e)
      | None \<Rightarrow> Inr (Dense units activation kernel_initializer))"

definition add :: "'e keras \<Rightarrow> 'w Sequential \<Rightarrow> layer \<Rightarrow> 'e error + 'w Sequential" where
  "add lib m l =
     (case add_raises lib (layers m) l of
        Some e \<Rightarrow> Inl (LibraryError e)
      | None \<Rightarrow> Inr (m\<lparr>layers := layers m @ [l]\<rparr>))"

text \<open>A dense layer is constructed and then added, as each stanza of the source does.\<close>

definition add_Dense ::
  "'e keras \<Rightarrow> 'w Sequential \<Rightarrow> int \<Rightarrow> string \<Rightarrow> string \<Rightarrow> 'e error + 'w Sequential" where
  "add_Dense lib m units activation kernel_initializer =
     (case new_Dense lib units activation kernel_initializer of
        Inl e \<Rightarrow> Inl e
      | Inr l \<Rightarrow> add lib m l)"

text \<open>
  \<open>create_model\<close> (lines 65 to 85): the input layer, the first hidden layer from
  \<open>self.hidden_layers[0]\<close> (an \<open>IndexError\<close> on an empty list, raised once the input layer
  is in), one more hidden layer for each of \<open>self.hidden_layers[1:]\<close>, and the output
  layer. The first exception ends the construction. \<open>w0\<close> stands for the parameters the
  library initialises the network with.
\<close>

fun add_hidden ::
  "'e keras \<Rightarrow> string \<Rightarrow> string \<Rightarrow> int list \<Rightarrow> 'w Sequential \<Rightarrow> 'e error + 'w Sequential" where
  "add_hidden lib act init [] m = Inr m"
| "add_hidden lib act init (layer # rest) m =
     (case add_Dense lib m layer act init of
        Inl e \<Rightarrow> Inl e
      | Inr m' \<Rightarrow> add_hidden lib act init rest m')"

definition create_model :: "'e keras \<Rightarrow> 'w \<Rightarrow> 'z config_scheme \<Rightarrow> 'e error + 'w Sequential" where
  "create_model lib w0 self =
     (let model = \<lparr>layers = [], compiled = None, weights = w0\<rparr>
      in case new_Input lib (num_of_inputs_neurons self) of
           Inl e \<Rightarrow> Inl e
         | Inr il \<Rightarrow>
        (case add lib model il of
           Inl e \<Rightarrow> Inl e
         | Inr model \<Rightarrow>
        (case hidden_layers self of
           [] \<Rightarrow> Inl IndexError
         | first # others \<Rightarrow>
        (case add_Dense lib model first (activation_function self) (weight_init_method self) of
           Inl e \<Rightarrow> Inl e
         | Inr model \<Rightarrow>
        (case add_hidden lib (activation_function self) (weight_init_method self) others model of
           Inl e \<Rightarrow> Inl e
         | Inr model \<Rightarrow>
             add_Dense lib model (num_of_outputs_neurons self) (activation_function_out self)
               (weight_init_method self))))))"

text \<open>
  \<open>__init__\<close> (lines 50 to 63) stores its arguments and builds the network. The optimizer
  name is stored as it comes.
\<close>

definition NeuralNetworkModel_init ::
  "'e keras \<Rightarrow> 'w \<Rightarrow> int list \<Rightarrow> string \<Rightarrow> string \<Rightarrow> string \<Rightarrow> int \<Rightarrow> int \<Rightarrow> int \<Rightarrow> real
     \<Rightarrow> string \<Rightarrow> real \<Rightarrow> 'e error + 'w NeuralNetworkModel" where
  "NeuralNetworkModel_init lib w0 hidden_layers' activation_function' activation_function_out'
       weight_init_method' num_of_inputs_neurons' num_of_outputs_neurons' epochs' learning_rate'
       optimizer' momentum' =
     (let self = \<lparr>hidden_layers = hidden_layers',
                  activation_function = activation_function',
                  activation_function_out = activation_function_out',
                  weight_init_method = weight_init_method',
                  num_of_inputs_neurons = num_of_inputs_neurons',
                  num_of_outputs_neurons = num_of_outputs_neurons',
                  epochs = epochs',
                  learning_rate = learning_rate',
                  optimizer_type = optimizer',
                  momentum = momentum'\<rparr>
      in case create_model lib w0 self of
           Inl e \<Rightarrow> Inl e
         | Inr m \<Rightarrow> Inr (config.extend self (NeuralNetworkModel.fields m)))"

text \<open>
  \<open>train\<close> (lines 87 to 107). The columns are selected, the optimizer is chosen by name,
  the network is compiled and fitted. \<open>fit\<close> is the library's: it is a parameter of the
  model, given the compiled network, the training inputs and labels, the epoch count and
  the validation pair, and returning its own error or the history with the fitted
  network. \<open>compile\<close> records its arguments in the network. \<open>compile_and_fit\<close> is the
  part of \<open>train\<close> that follows the choice of the optimizer (lines 102 to 107), written
  once for both branches.
\<close>

definition optimizer_message :: string where
  \<open>optimizer_message = ''Optimizer must be either "adam" or "sgd"''\<close>

definition compile :: "'w Sequential \<Rightarrow> optimizer \<Rightarrow> string \<Rightarrow> string list \<Rightarrow> 'w Sequential" where
  "compile m opt loss' metrics' =
     m\<lparr>compiled := Some \<lparr>optimizer = opt, loss = loss', metrics = metrics'\<rparr>\<rparr>"

type_synonym ('w, 'h, 'e) fit =
  "'w Sequential \<Rightarrow> (cell \<times> cell) list \<Rightarrow> (cell \<times> cell) list \<Rightarrow> int
     \<Rightarrow> (cell \<times> cell) list \<times> (cell \<times> cell) list \<Rightarrow> 'e + 'h \<times> 'w Sequential"

definition compile_and_fit ::
  "('w, 'h, 'e) fit \<Rightarrow> 'w NeuralNetworkModel \<Rightarrow> optimizer
     \<Rightarrow> (cell \<times> cell) list \<Rightarrow> (cell \<times> cell) list \<Rightarrow> (cell \<times> cell) list \<Rightarrow> (cell \<times> cell) list
     \<Rightarrow> 'e error + 'h \<times> 'w NeuralNetworkModel" where
  "compile_and_fit fit self opt train_data train_labels val_data val_labels =
     (let m = compile (model self) opt ''mean_squared_error'' [''mse'']
      in case fit m train_data train_labels (epochs self) (val_data, val_labels) of
           Inl e \<Rightarrow> Inl (LibraryError e)
         | Inr (history, fitted) \<Rightarrow> Inr (history, self\<lparr>model := fitted\<rparr>))"

definition train ::
  "('w, 'h, 'e) fit \<Rightarrow> 'w NeuralNetworkModel \<Rightarrow> DataFrame \<Rightarrow> DataFrame
     \<Rightarrow> 'e error + 'h \<times> 'w NeuralNetworkModel" where
  "train fit self training_data testing_data =
     (let train_data = map (\<lambda>r. (input_X r, input_Y r)) training_data;
          train_labels = map (\<lambda>r. (expected_X r, expected_Y r)) training_data;
          val_data = map (\<lambda>r. (input_X r, input_Y r)) testing_data;
          val_labels = map (\<lambda>r. (expected_X r, expected_Y r)) testing_data
      in if optimizer_type self = ''adam'' then
           compile_and_fit fit self (Adam (learning_rate self))
             train_data train_labels val_data val_labels
         else if optimizer_type self = ''sgd'' then
           compile_and_fit fit self (SGD (learning_rate self) (momentum self))
             train_data train_labels val_data val_labels
         else Inl (ValueError optimizer_message))"

text \<open>
  For the examples: a stand-in for the library's checks that refuses a non-positive width
  and accepts everything else (the examples use the default names \<open>tanh\<close>, \<open>linear\<close> and
  \<open>glorot_uniform\<close>, which the library accepts); the object
  \<open>NeuralNetworkModel([8], optimizer=...)\<close> with the defaults of \<open>__init__\<close>; and a
  stand-in for \<open>fit\<close> that trains nothing and reports, as its history, the compile
  arguments and the epoch count it was given.
\<close>

definition positive_widths :: "unit keras" where
  "positive_widths =
     \<lparr>Input_raises = (\<lambda>n. if 0 < n then None else Some ()),
      Dense_raises = (\<lambda>units activation kernel_initializer. if 0 < units then None else Some ()),
      add_raises = (\<lambda>present l. None)\<rparr>"

definition example_model :: "string \<Rightarrow> unit NeuralNetworkModel" where
  "example_model optimizer' =
     \<lparr>hidden_layers = [8], activation_function = ''tanh'', activation_function_out = ''linear'',
      weight_init_method = ''glorot_uniform'', num_of_inputs_neurons = 2,
      num_of_outputs_neurons = 2, epochs = 100, learning_rate = 1 / 100,
      optimizer_type = optimizer', momentum = 9 / 10,
      model = \<lparr>layers = [Input 2, Dense 8 ''tanh'' ''glorot_uniform'',
                           Dense 2 ''linear'' ''glorot_uniform''],
               compiled = None, weights = ()\<rparr>\<rparr>"

definition fit_report :: "(unit, compile_config option \<times> int, unit) fit" where
  "fit_report m train_data train_labels epochs' validation_data = Inr ((compiled m, epochs'), m)"

section \<open>The data loader: \<open>load_data\<close>\<close>

text \<open>\<open>str.endswith\<close>, \<open>str.startswith\<close> and POSIX \<open>os.path.join\<close> of two components.\<close>

definition endswith :: "string \<Rightarrow> string \<Rightarrow> bool" where
  "endswith s suffix' =
     (length suffix' \<le> length s \<and> drop (length s - length suffix') s = suffix')"

definition startswith :: "string \<Rightarrow> string \<Rightarrow> bool" where
  "startswith s prefix' = (take (length prefix') s = prefix')"

definition path_join :: "string \<Rightarrow> string \<Rightarrow> string" where
  "path_join a b =
     (if startswith b ''/'' then b
      else if a = [] \<or> endswith a ''/'' then a @ b
      else a @ ''/'' @ b)"

text \<open>
  What \<open>load_data\<close> reads from and writes to: the directory listings (in the order the
  operating system gives them), the parsed content of each file, and the writing of a
  table. Each of the three can fail with the library's error.
\<close>

record 'e environment =
  listdir :: "string \<Rightarrow> 'e + string list"
  read_csv :: "string \<Rightarrow> 'e + DataFrame"
  to_csv :: "string \<Rightarrow> DataFrame \<Rightarrow> 'e + unit"

definition static_folders_paths :: "string list" where
  "static_folders_paths = [''./dane/f8/stat'', ''./dane/f10/stat'']"

definition dynamic_folders_paths :: "string list" where
  "dynamic_folders_paths = [''./dane/f8/dyn'', ''./dane/f10/dyn'']"

text \<open>
  Lines 24 and 25: \<open>sorted(file for file in os.listdir(path) if file.endswith(".csv"))\<close>.
  Python orders strings lexicographically by character, as the order on \<^typ>\<open>string\<close> does.
\<close>

definition csv_files :: "string list \<Rightarrow> string list" where
  "csv_files entries = sort (filter (\<lambda>file. endswith file ''.csv'') entries)"

text \<open>
  The inner loops (lines 27 to 30 and 32 to 35): each file is read and appended to the
  running table.
\<close>

fun read_files :: "'e environment \<Rightarrow> string \<Rightarrow> string list \<Rightarrow> DataFrame \<Rightarrow> 'e error + DataFrame" where
  "read_files env folder_path [] data = Inr data"
| "read_files env folder_path (file # files) data =
     (let file_path = path_join folder_path file
      in case read_csv env file_path of
           Inl e \<Rightarrow> Inl (LibraryError e)
         | Inr temp_data_frame \<Rightarrow> read_files env folder_path files (data @ temp_data_frame))"

text \<open>
  The outer loop (lines 19 to 35) over \<open>i\<close> in \<open>range(2)\<close>: both listings are taken
  before any file of the pair is read.
\<close>

fun load_folders ::
  "'e environment \<Rightarrow> nat list \<Rightarrow> DataFrame \<Rightarrow> DataFrame \<Rightarrow> 'e error + DataFrame \<times> DataFrame" where
  "load_folders env [] training_data testing_data = Inr (training_data, testing_data)"
| "load_folders env (i # is) training_data testing_data =
     (let static_folder_path = static_folders_paths ! i;
          dynamic_folder_path = dynamic_folders_paths ! i
      in case listdir env static_folder_path of
           Inl e \<Rightarrow> Inl (LibraryError e)
         | Inr static_entries \<Rightarrow>
             (case listdir env dynamic_folder_path of
                Inl e \<Rightarrow> Inl (LibraryError e)
              | Inr dynamic_entries \<Rightarrow>
                  (case read_files env static_folder_path (csv_files static_entries) training_data of
                     Inl e \<Rightarrow> Inl e
                   | Inr training_data' \<Rightarrow>
                       (case read_files env dynamic_folder_path (csv_files dynamic_entries)
                               testing_data of
                          Inl e \<Rightarrow> Inl e
                        | Inr testing_data' \<Rightarrow> load_folders env is training_data' testing_data'))))"

text \<open>
  \<open>dropna\<close> keeps the rows with no missing cell. \<open>load_data\<close> (lines 11 to 46) applies it
  to both tables after the loop, writes both, and returns them. The message printed
  before the return does not bear on the result and is left out.
\<close>

definition notna :: "row \<Rightarrow> bool" where
  "notna r = (input_X r \<noteq> None \<and> input_Y r \<noteq> None \<and> expected_X r \<noteq> None \<and> expected_Y r \<noteq> None)"

definition dropna :: "DataFrame \<Rightarrow> DataFrame" where
  "dropna data = filter notna data"

definition load_data :: "'e environment \<Rightarrow> 'e error + DataFrame \<times> DataFrame" where
  "load_data env =
     (case load_folders env [0 ..< 2] [] [] of
        Inl e \<Rightarrow> Inl e
      | Inr (training_data, testing_data) \<Rightarrow>
          let training_data = dropna training_data;
              testing_data = dropna testing_data
          in case to_csv env ''training_data.csv'' training_data of
               Inl e \<Rightarrow> Inl (LibraryError e)
             | Inr _ \<Rightarrow>
                 (case to_csv env ''testing_data.csv'' testing_data of
                    Inl e \<Rightarrow> Inl (LibraryError e)
                  | Inr _ \<Rightarrow> Inr (training_data, testing_data)))"

subsection \<open>The loader as the specification words it\<close>

text \<open>
  The specification's account of the result, for the comparison with \<open>load_data\<close>: the
  folders in their given order; within a folder the files with the CSV extension in
  lexicographic order of their names; the tables of these files one after the other.
  \<open>entries_of\<close> and \<open>frame_of\<close> read a listing and a parsed file where the environment
  has them.
\<close>

definition entries_of :: "'e environment \<Rightarrow> string \<Rightarrow> string list" where
  "entries_of env folder_path =
     (case listdir env folder_path of Inl e \<Rightarrow> [] | Inr entries \<Rightarrow> entries)"

definition frame_of :: "'e environment \<Rightarrow> string \<Rightarrow> DataFrame" where
  "frame_of env file_path =
     (case read_csv env file_path of Inl e \<Rightarrow> [] | Inr data \<Rightarrow> data)"

definition gathered :: "'e environment \<Rightarrow> string list \<Rightarrow> DataFrame" where
  "gathered env folders =
     concat (map (\<lambda>folder_path.
                concat (map (\<lambda>file. frame_of env (path_join folder_path file))
                          (csv_files (entries_of env folder_path))))
             folders)"

text \<open>
  An environment is \<open>readable\<close> at a folder when the folder can be listed and each of its
  CSV files parses.
\<close>

definition readable :: "'e environment \<Rightarrow> string \<Rightarrow> bool" where
  "readable env folder_path =
     (\<not> isl (listdir env folder_path) \<and>
      list_all (\<lambda>f. \<not> isl (read_csv env (path_join folder_path f)))
        (csv_files (entries_of env folder_path)))"

text \<open>
  Two environments for the examples. In the first, \<open>./dane/f8/stat\<close> holds \<open>b.csv\<close> (two
  rows), \<open>notes.txt\<close> and \<open>a.csv\<close> (three rows), listed in that order, and
  \<open>./dane/f10/dyn\<close> holds \<open>d.csv\<close>. In the second, the first static and the first dynamic
  folder each hold one file with the rows \<open>[1, 2, 3, 4]\<close> and \<open>[5, 6, 7, NaN]\<close>.
\<close>

definition mk_row :: "real \<Rightarrow> real \<Rightarrow> real \<Rightarrow> real \<Rightarrow> row" where
  "mk_row a b c d = \<lparr>input_X = Some a, input_Y = Some b, expected_X = Some c, expected_Y = Some d\<rparr>"

definition two_static_files :: "unit environment" where
  "two_static_files = \<lparr>
     listdir = (\<lambda>p. if p = ''./dane/f8/stat'' then Inr [''b.csv'', ''notes.txt'', ''a.csv'']
                     else if p = ''./dane/f10/dyn'' then Inr [''d.csv'']
                     else Inr []),
     read_csv = (\<lambda>p. if p = ''./dane/f8/stat/a.csv''
                        then Inr [mk_row 1 1 1 1, mk_row 2 2 2 2, mk_row 3 3 3 3]
                      else if p = ''./dane/f8/stat/b.csv''
                        then Inr [mk_row 4 4 4 4, mk_row 5 5 5 5]
                      else if p = ''./dane/f10/dyn/d.csv''
                        then Inr [mk_row 6 6 6 6]
                      else Inl ()),
     to_csv = (\<lambda>p data. Inr ())\<rparr>"

definition files_with_missing_value :: "unit environment" where
  "files_with_missing_value = \<lparr>
     listdir = (\<lambda>p. if p = ''./dane/f8/stat'' \<or> p = ''./dane/f8/dyn'' then Inr [''m.csv'']
                     else Inr []),
     read_csv = (\<lambda>p. if p = ''./dane/f8/stat/m.csv'' \<or> p = ''./dane/f8/dyn/m.csv''
                        then Inr [mk_row 1 2 3 4,
                                  \<lparr>input_X = Some 5, input_Y = Some 6, expected_X = Some 7,
                                   expected_Y = None\<rparr>]
                      else Inl ()),
     to_csv = (\<lambda>p data. Inr ())\<rparr>"

section \<open>Properties of \<open>calculate_cdf\<close>\<close>

lemmas cdf_eval = calculate_cdf_def np_sort_def np_sum_def round_float_def overflow_threshold_def Let_def

lemma overflow_threshold_pos: "1 < overflow_threshold"
  by (simp add: overflow_threshold_def)


lemma round_float_Finite:
  "- overflow_threshold < x \<Longrightarrow> x < overflow_threshold \<Longrightarrow> round_float x = Finite x"
  by (simp add: round_float_def)

lemma round_float_nonneg_Finite:
  "0 \<le> x \<Longrightarrow> x < overflow_threshold \<Longrightarrow> round_float x = Finite x"
  using overflow_threshold_pos by (intro round_float_Finite) simp_all

lemma round_float_overflow: "overflow_threshold \<le> x \<Longrightarrow> round_float x = PosInf"
  by (simp add: round_float_def)

lemma insort_Finite: "insort (Finite x) (map Finite ys) = map Finite (insort x ys)"
  by (induction ys) simp_all

lemma sort_map_Finite: "sort (map Finite xs) = map Finite (sort xs)"
  by (induction xs) (simp_all add: insort_Finite)

lemma np_add_round:
  assumes "0 \<le> a" and "0 \<le> x"
  shows "np_add (round_float a) (Finite x) = round_float (a + x)"
proof (cases "a < overflow_threshold")
  case True
  with assms(1) have "round_float a = Finite a" by (rule round_float_nonneg_Finite)
  then show ?thesis by simp
next
  case False
  with assms(2) have "overflow_threshold \<le> a" and "overflow_threshold \<le> a + x" by simp_all
  then show ?thesis by (simp add: round_float_overflow)
qed

lemma cumsum_from_round:
  "0 \<le> a \<Longrightarrow> \<forall>x\<in>set xs. 0 \<le> x \<Longrightarrow>
     cumsum_from (round_float a) (map Finite xs) = map round_float (running_sums a xs)"
proof (induction xs arbitrary: a)
  case Nil
  then show ?case by simp
next
  case (Cons x xs)
  then have x: "0 \<le> x" and rest: "\<forall>y\<in>set xs. 0 \<le> y" by simp_all
  from Cons.prems(1) x have ax: "0 \<le> a + x" by simp
  from Cons.IH [OF ax rest] np_add_round [OF Cons.prems(1) x] show ?case by simp
qed

lemma np_cumsum_round:
  assumes "\<forall>x\<in>set xs. 0 \<le> x \<and> x < overflow_threshold"
  shows "np_cumsum (map Finite xs) = map round_float (running_sums 0 xs)"
proof (cases xs)
  case Nil
  then show ?thesis by simp
next
  case (Cons x ys)
  with assms have x: "0 \<le> x" "x < overflow_threshold" and rest: "\<forall>y\<in>set ys. 0 \<le> y"
    by simp_all
  from x have r: "round_float x = Finite x" by (rule round_float_nonneg_Finite)
  from cumsum_from_round [OF x(1) rest] r Cons show ?thesis by simp
qed

lemma foldl_np_add_round:
  "0 \<le> a \<Longrightarrow> \<forall>x\<in>set xs. 0 \<le> x \<Longrightarrow>
     foldl np_add (round_float a) (map Finite xs) = round_float (a + sum_list xs)"
proof (induction xs arbitrary: a)
  case Nil
  then show ?case by simp
next
  case (Cons x xs)
  then have x: "0 \<le> x" and rest: "\<forall>y\<in>set xs. 0 \<le> y" by simp_all
  from Cons.prems(1) x have ax: "0 \<le> a + x" by simp
  from Cons.IH [OF ax rest] np_add_round [OF Cons.prems(1) x] show ?case
    by (simp add: add.assoc)
qed

lemma np_sum_round:
  assumes "\<forall>x\<in>set xs. 0 \<le> x"
  shows "np_sum (map Finite xs) = round_float (sum_list xs)"
proof -
  have z: "round_float 0 = Finite 0" by (rule round_float_nonneg_Finite) (simp_all add: overflow_threshold_def)
  from foldl_np_add_round [OF _ assms, of 0] z show ?thesis by (simp add: np_sum_def)
qed

lemma length_cumsum_from: "length (cumsum_from acc xs) = length xs"
  by (induction xs arbitrary: acc) simp_all

lemma length_np_cumsum: "length (np_cumsum xs) = length xs"
  by (cases xs) (simp_all add: length_cumsum_from)



lemma length_running_sums: "length (running_sums a xs) = length xs"
  by (induction xs arbitrary: a) simp_all


lemma last_running_sums:
  "xs \<noteq> [] \<Longrightarrow> last (running_sums a xs) = a + sum_list xs"
proof (induction xs arbitrary: a)
  case Nil
  then show ?case by simp
next
  case (Cons x xs)
  show ?case
  proof (cases xs)
    case Nil
    then show ?thesis by simp
  next
    case (Cons y ys)
    then have ne: "xs \<noteq> []" by simp
    have "running_sums (a + x) xs \<noteq> []" using Cons by simp
    with Cons.IH [OF ne, of "a + x"] show ?thesis by (simp add: add.assoc)
  qed
qed

lemma running_sums_mono:
  "(\<forall>e\<in>set xs. 0 \<le> e) \<Longrightarrow>
     sorted (running_sums a xs) \<and> (\<forall>c\<in>set (running_sums a xs). a \<le> c \<and> c \<le> a + sum_list xs)"
proof (induction xs arbitrary: a)
  case Nil
  then show ?case by simp
next
  case (Cons x xs)
  then have x: "0 \<le> x" and rest: "\<forall>e\<in>set xs. 0 \<le> e" by simp_all
  from rest have nn: "0 \<le> sum_list xs" by (simp add: sum_list_nonneg)
  from Cons.IH [OF rest, of "a + x"]
  have s: "sorted (running_sums (a + x) xs)"
    and b: "\<forall>c\<in>set (running_sums (a + x) xs). a + x \<le> c \<and> c \<le> a + x + sum_list xs" by simp_all
  from b x have "\<forall>c\<in>set (running_sums (a + x) xs). a \<le> c \<and> c \<le> a + (x + sum_list xs)"
    by fastforce
  with s b x nn show ?case by (simp add: add.assoc)
qed

lemma sum_list_sort: "sum_list (sort xs) = sum_list (xs :: real list)"
proof -
  have "sum_mset (mset (sort xs)) = sum_mset (mset xs)" by simp
  then show ?thesis by (simp only: sum_mset_sum_list)
qed

lemma calculate_cdf_parts:
  "fst (calculate_cdf errors) = sort errors"
  "snd (calculate_cdf errors) =
     map (\<lambda>c. true_divide c (np_sum (sort errors))) (np_cumsum (sort errors))"
  by (simp_all add: calculate_cdf_def Let_def np_sort_def)

text \<open>For finite non-negative inputs: the sums are the exact sums, rounded.\<close>

lemma calculate_cdf_nonneg:
  assumes "\<forall>x\<in>set xs. 0 \<le> x \<and> x < overflow_threshold"
  shows "fst (calculate_cdf (map Finite xs)) = map Finite (sort xs)"
    and "snd (calculate_cdf (map Finite xs)) =
           map (\<lambda>c. true_divide (round_float c) (round_float (sum_list xs)))
             (running_sums 0 (sort xs))"
proof -
  from assms have a: "\<forall>x\<in>set (sort xs). 0 \<le> x \<and> x < overflow_threshold" by simp
  then have b: "\<forall>x\<in>set (sort xs). 0 \<le> x" by simp
  show "fst (calculate_cdf (map Finite xs)) = map Finite (sort xs)"
    by (simp add: calculate_cdf_parts sort_map_Finite)
  show "snd (calculate_cdf (map Finite xs)) =
           map (\<lambda>c. true_divide (round_float c) (round_float (sum_list xs)))
             (running_sums 0 (sort xs))"
    using np_cumsum_round [OF a] np_sum_round [OF b]
    by (simp add: calculate_cdf_parts sort_map_Finite sum_list_sort comp_def)
qed

lemma calculate_cdf_no_overflow:
  assumes "\<forall>x\<in>set xs. 0 \<le> x" and "0 < sum_list xs" and "sum_list xs < overflow_threshold"
  shows "fst (calculate_cdf (map Finite xs)) = map Finite (sort xs)"
    and "snd (calculate_cdf (map Finite xs)) =
           map Finite (map (\<lambda>c. c / sum_list xs) (running_sums 0 (sort xs)))"
proof -
  let ?t = "sum_list xs"
  have le: "x \<le> ?t" if "x \<in> set xs" for x
    using that assms(1) by (simp add: member_le_sum_list)
  with assms have r: "\<forall>x\<in>set xs. 0 \<le> x \<and> x < overflow_threshold" by fastforce
  from assms(1) have nn: "\<forall>e\<in>set (sort xs). 0 \<le> e" by simp
  have t: "round_float ?t = Finite ?t"
    using assms(2,3) by (intro round_float_nonneg_Finite) simp_all
  have c: "true_divide (round_float c) (round_float ?t) = Finite (c / ?t)"
    if "c \<in> set (running_sums 0 (sort xs))" for c
  proof -
    from running_sums_mono [OF nn, of 0] that have b: "0 \<le> c" "c \<le> ?t"
      by (simp_all add: sum_list_sort)
    with assms(3) have "round_float c = Finite c" by (intro round_float_nonneg_Finite) simp_all
    moreover from b assms(2) have "0 \<le> c / ?t" "c / ?t \<le> 1" by simp_all
    then have "round_float (c / ?t) = Finite (c / ?t)"
      using overflow_threshold_pos by (intro round_float_nonneg_Finite) simp_all
    ultimately show ?thesis using t assms(2) by simp
  qed
  show "fst (calculate_cdf (map Finite xs)) = map Finite (sort xs)"
    by (rule calculate_cdf_nonneg(1) [OF r])
  show "snd (calculate_cdf (map Finite xs)) =
           map Finite (map (\<lambda>c. c / sum_list xs) (running_sums 0 (sort xs)))"
    using c by (simp add: calculate_cdf_nonneg(2) [OF r])
qed

lemma two_1023_below_threshold: "two_1023 < overflow_threshold"
  by (simp add: two_1023_def overflow_threshold_def)

lemma no_overflow_below_two_1023: "t \<le> two_1023 \<Longrightarrow> t < overflow_threshold"
  using two_1023_below_threshold by simp

subsection \<open>The cumulative share of the total (C1)\<close>


text \<open>The theorem at \<open>[3, 1]\<close>: the first CDF value is \<open>1/4\<close>, where the rank form gives \<open>1/2\<close>.\<close>

lemma example_1_3:
  "calculate_cdf [Finite 3, Finite 1] = ([Finite 1, Finite 3], [Finite (1 / 4), Finite 1])"
  by (simp add: cdf_eval)


subsection \<open>Monotone and ending at one (C3)\<close>

text \<open>
  C3 as written covers every non-empty collection of non-negative errors. The single
  error \<open>0\<close> is one, and there the only CDF value is \<open>0/0\<close>, which is \<open>nan\<close>, not \<open>1.0\<close>. The
  two errors \<open>2\<^sup>1\<^sup>0\<^sup>2\<^sup>3\<close> are another: their total overflows to infinity, the CDF is
  \<open>[0, nan]\<close>, and its last value is not \<open>1.0\<close> either.
\<close>

lemma example_zero:
  "calculate_cdf [Finite 0] = ([Finite 0], [NaN])"
  by (simp add: cdf_eval)

lemma example_overflow:
  "calculate_cdf [Finite two_1023, Finite two_1023] =
     ([Finite two_1023, Finite two_1023], [Finite 0, NaN])"
  by (simp add: cdf_eval two_1023_def)

theorem calculate_cdf_zero_or_overflow_counterexample:
  "[Finite 0] \<noteq> [] \<and> (0 :: real) \<le> 0 \<and>
   calculate_cdf [Finite 0] = ([Finite 0], [NaN]) \<and>
   last (snd (calculate_cdf [Finite 0])) \<noteq> Finite 1 \<and>
   (0 :: real) \<le> two_1023 \<and> two_1023 \<le> max_float \<and>
   calculate_cdf [Finite two_1023, Finite two_1023] =
     ([Finite two_1023, Finite two_1023], [Finite 0, NaN]) \<and>
   last (snd (calculate_cdf [Finite two_1023, Finite two_1023])) \<noteq> Finite 1"
proof -
  have a: "last (snd (calculate_cdf [Finite 0])) \<noteq> Finite 1"
    by (simp add: example_zero)
  have b: "last (snd (calculate_cdf [Finite two_1023, Finite two_1023])) \<noteq> Finite 1"
    by (simp add: example_overflow)
  have c: "(0 :: real) \<le> two_1023" "two_1023 \<le> max_float"
    by (simp_all add: two_1023_def max_float_def)
  from a b c example_zero example_overflow show ?thesis by simp
qed

text \<open>
  C3, amended. For every collection of finite non-negative errors whose total is strictly
  positive (so the collection is non-empty) and at most \<open>2\<^sup>1\<^sup>0\<^sup>2\<^sup>3\<close> (so no sum overflows,
  with room for the rounding of each addition), \<open>calculate_cdf\<close> returns the input
  arranged in ascending order, and a CDF sequence of as many finite values,
  non-decreasing, whose last value is \<open>1\<close> (exactly, in the arithmetic of the model).
\<close>

theorem calculate_cdf_monotone_to_one:
  assumes "\<forall>x\<in>set xs. 0 \<le> x" and "0 < sum_list xs" and "sum_list xs \<le> two_1023"
    and "calculate_cdf (map Finite xs) = (sorted_errors, cdf)"
  shows "sorted_errors = map Finite (sort xs) \<and> sorted sorted_errors \<and>
         mset sorted_errors = mset (map Finite xs) \<and>
         (\<exists>vs. cdf = map Finite vs \<and> length vs = length xs \<and> sorted vs \<and> last vs = 1) \<and>
         last cdf = Finite 1"
proof -
  let ?t = "sum_list xs"
  let ?vs = "map (\<lambda>c. c / ?t) (running_sums 0 (sort xs))"
  from assms(2) have ne: "xs \<noteq> []" by auto
  note no = no_overflow_below_two_1023 [OF assms(3)]
  from assms(4) have s: "sorted_errors = map Finite (sort xs)"
    using calculate_cdf_no_overflow(1) [OF assms(1,2) no] by simp
  from assms(4) have s2: "sorted_errors = sort (map Finite xs)"
    using calculate_cdf_parts(1) [of "map Finite xs"] by simp
  from assms(4) have c: "cdf = map Finite ?vs"
    using calculate_cdf_no_overflow(2) [OF assms(1,2) no] by simp
  have nn: "\<forall>e\<in>set (sort xs). 0 \<le> e" using assms(1) by simp
  from running_sums_mono [OF nn, of 0] have m: "sorted (running_sums 0 (sort xs))" by simp
  have sv: "sorted ?vs"
    unfolding sorted_map
    by (rule sorted_wrt_mono_rel [OF _ m]) (use assms(2) in \<open>simp add: divide_right_mono\<close>)
  have sne: "sort xs \<noteq> []" using ne by (metis length_sort length_0_conv)
  then have cne: "running_sums 0 (sort xs) \<noteq> []"
    by (cases "sort xs") simp_all
  have l: "last (running_sums 0 (sort xs)) = ?t"
    using last_running_sums [OF sne, of 0] by (simp add: sum_list_sort)
  have lv: "last ?vs = 1"
    using cne l assms(2) by (simp add: last_map)
  have vne: "?vs \<noteq> []" using cne by simp
  have lc: "last cdf = Finite 1"
    unfolding c using vne lv by (simp add: last_map)
  have "cdf = map Finite ?vs \<and> length ?vs = length xs \<and> sorted ?vs \<and> last ?vs = 1"
    using c sv lv by (simp add: length_running_sums)
  then have ex: "\<exists>vs. cdf = map Finite vs \<and> length vs = length xs \<and> sorted vs \<and> last vs = 1"
    by blast
  have "sorted sorted_errors" "mset sorted_errors = mset (map Finite xs)"
    by (simp_all add: s2)
  with s ex lc show ?thesis by blast
qed

text \<open>The amended C3 at the unsorted input \<open>[3, 1]\<close>.\<close>

theorem calculate_cdf_monotone_to_one_witness:
  "list_all (\<lambda>x. 0 \<le> x) [3, 1 :: real] \<and> 0 < sum_list [3, 1 :: real] \<and>
   sum_list [3, 1 :: real] \<le> two_1023 \<and>
   calculate_cdf (map Finite [3, 1]) = ([Finite 1, Finite 3], [Finite (1 / 4), Finite 1]) \<and>
   [Finite 1, Finite 3] = map Finite (sort [3, 1]) \<and>
   last [Finite (1 / 4), Finite 1] = Finite 1"
proof -
  have h1: "\<forall>x\<in>set [3, 1 :: real]. 0 \<le> x" by simp
  have h2: "0 < sum_list [3, 1 :: real]" by simp
  have h3: "sum_list [3, 1 :: real] \<le> two_1023" by (simp add: two_1023_def)
  have h4: "calculate_cdf (map Finite [3, 1]) = ([Finite 1, Finite 3], [Finite (1 / 4), Finite 1])"
    using example_1_3 by simp
  from calculate_cdf_monotone_to_one [OF h1 h2 h3 h4]
  have "[Finite 1, Finite 3] = map Finite (sort [3, 1]) \<and>
        last [Finite (1 / 4), Finite 1] = Finite 1"
    by blast
  moreover have "list_all (\<lambda>x. 0 \<le> x) [3, 1 :: real]" by simp
  ultimately show ?thesis using h2 h3 h4 by blast
qed

subsection \<open>A zero total (C9)\<close>

lemma running_sums_zero:
  "(\<forall>e\<in>set xs. e = 0) \<Longrightarrow> c \<in> set (running_sums 0 xs) \<Longrightarrow> c = 0"
  by (induction xs) auto

text \<open>
  C9 as written calls the result undefined for the empty collection as well. There the
  total is zero, but the array divided by it has no element, so no division yields a
  value: the code returns two empty sequences, and no entry of the CDF is undefined. C9
  also calls the division well-defined for every strictly positive total; the two errors
  \<open>2\<^sup>1\<^sup>0\<^sup>2\<^sup>3\<close> have one, it overflows to infinity, and the last CDF value is \<open>nan\<close>.
\<close>

theorem calculate_cdf_empty_or_overflow_counterexample:
  "np_sum (np_sort []) = Finite 0 \<and> calculate_cdf [] = ([], []) \<and>
   list_all is_finite (snd (calculate_cdf [])) \<and>
   (0 :: real) < two_1023 + two_1023 \<and>
   np_sum (np_sort [Finite two_1023, Finite two_1023]) = PosInf \<and>
   snd (calculate_cdf [Finite two_1023, Finite two_1023]) = [Finite 0, NaN] \<and>
   \<not> list_all is_finite (snd (calculate_cdf [Finite two_1023, Finite two_1023]))"
proof -
  have a: "np_sum (np_sort []) = Finite 0" "calculate_cdf [] = ([], [])"
    by (simp_all add: cdf_eval)
  have b: "(0 :: real) < two_1023 + two_1023" by (simp add: two_1023_def)
  have c: "np_sum (np_sort [Finite two_1023, Finite two_1023]) = PosInf"
    by (simp add: cdf_eval two_1023_def)
  have d: "snd (calculate_cdf [Finite two_1023, Finite two_1023]) = [Finite 0, NaN]"
    by (simp add: example_overflow)
  from a b c d show ?thesis by simp
qed

text \<open>
  C9, amended. The normalization divides by the sum of the errors. For a non-empty
  collection of finite non-negative errors whose total is zero (all errors are zero) the
  computed total is zero and every CDF value is the division \<open>0/0\<close>, which is \<open>nan\<close>, not
  a finite number. For the empty collection the result is the pair of empty sequences.
  For every collection of finite non-negative errors whose total is strictly positive and
  at most \<open>2\<^sup>1\<^sup>0\<^sup>2\<^sup>3\<close> (so no sum overflows), the computed total is that finite number and
  every CDF value is a well-defined finite number.
\<close>

theorem calculate_cdf_zero_total:
  "(\<forall>xs. errors = map Finite xs \<and> xs \<noteq> [] \<and> (\<forall>x\<in>set xs. 0 \<le> x) \<and> sum_list xs = 0 \<longrightarrow>
      np_sum (np_sort errors) = Finite 0 \<and>
      snd (calculate_cdf errors) = replicate (length errors) NaN \<and>
      (\<forall>v\<in>set (snd (calculate_cdf errors)). \<not> is_finite v)) \<and>
   (errors = [] \<longrightarrow> calculate_cdf errors = ([], [])) \<and>
   (\<forall>xs. errors = map Finite xs \<and> (\<forall>x\<in>set xs. 0 \<le> x) \<and>
         0 < sum_list xs \<and> sum_list xs \<le> two_1023 \<longrightarrow>
      np_sum (np_sort errors) = Finite (sum_list xs) \<and>
      length (snd (calculate_cdf errors)) = length errors \<and>
      (\<forall>v\<in>set (snd (calculate_cdf errors)). is_finite v))"
proof -
  have len: "length (snd (calculate_cdf errors)) = length errors"
    by (simp add: calculate_cdf_parts length_np_cumsum)
  have b: "np_sum (np_sort errors) = Finite 0 \<and>
      snd (calculate_cdf errors) = replicate (length errors) NaN \<and>
      (\<forall>v\<in>set (snd (calculate_cdf errors)). \<not> is_finite v)"
    if e: "errors = map Finite xs" and nn: "\<forall>x\<in>set xs. 0 \<le> x" and t: "sum_list xs = 0" for xs
  proof -
    from nn t have x0: "\<forall>x\<in>set xs. x = 0"
      by (simp add: sum_list_nonneg_eq_0_iff)
    then have r: "\<forall>x\<in>set xs. 0 \<le> x \<and> x < overflow_threshold"
      using overflow_threshold_pos by fastforce
    have r0: "round_float 0 = Finite 0"
      using overflow_threshold_pos by (intro round_float_nonneg_Finite) simp_all
    from x0 have "\<forall>x\<in>set (sort xs). x = 0" by simp
    then have cz: "\<forall>c\<in>set (running_sums 0 (sort xs)). c = 0"
      using running_sums_zero by blast
    have "map (\<lambda>c. true_divide (round_float c) (round_float 0)) (running_sums 0 (sort xs))
            = replicate (length xs) NaN"
      by (rule replicate_eqI) (use cz r0 in \<open>auto simp: length_running_sums\<close>)
    then have 1: "snd (calculate_cdf errors) = replicate (length errors) NaN"
      using calculate_cdf_nonneg(2) [OF r] by (simp add: e t)
    from r have "\<forall>x\<in>set (sort xs). 0 \<le> x" by simp
    from np_sum_round [OF this] have 2: "np_sum (np_sort errors) = Finite 0"
      by (simp add: e np_sort_def sort_map_Finite sum_list_sort t r0)
    have 3: "\<forall>v\<in>set (snd (calculate_cdf errors)). \<not> is_finite v"
      by (simp add: 1)
    from 1 2 3 show ?thesis by blast
  qed
  have c: "calculate_cdf [] = ([], [])"
    by (simp add: cdf_eval)
  have d: "np_sum (np_sort errors) = Finite (sum_list xs) \<and>
      (\<forall>v\<in>set (snd (calculate_cdf errors)). is_finite v)"
    if e: "errors = map Finite xs" and nn: "\<forall>x\<in>set xs. 0 \<le> x"
      and p0: "0 < sum_list xs" "sum_list xs \<le> two_1023" for xs
  proof -
    from p0 have p: "0 < sum_list xs" "sum_list xs < overflow_threshold"
      by (simp_all add: no_overflow_below_two_1023)
    from nn have "\<forall>x\<in>set (sort xs). 0 \<le> x" by simp
    from np_sum_round [OF this] p have 1: "np_sum (np_sort errors) = Finite (sum_list xs)"
      by (simp add: e np_sort_def sort_map_Finite sum_list_sort round_float_nonneg_Finite)
    from calculate_cdf_no_overflow(2) [OF nn p] e
    have 2: "\<forall>v\<in>set (snd (calculate_cdf errors)). is_finite v" by auto
    from 1 2 show ?thesis by blast
  qed
  show ?thesis using b c d len by blast
qed

text \<open>The amended C9 at \<open>[0, 0]\<close>, at \<open>[1, 3]\<close> and at the empty input.\<close>

theorem calculate_cdf_zero_total_witness:
  "[Finite 0, Finite 0] = map Finite [0, 0] \<and> [0, 0] \<noteq> ([] :: real list) \<and>
   list_all (\<lambda>x. 0 \<le> x) [0, 0 :: real] \<and> sum_list [0, 0 :: real] = 0 \<and>
   np_sum (np_sort [Finite 0, Finite 0]) = Finite 0 \<and>
   snd (calculate_cdf [Finite 0, Finite 0]) = [NaN, NaN] \<and>
   [Finite 1, Finite 3] = map Finite [1, 3] \<and> list_all (\<lambda>x. 0 \<le> x) [1, 3 :: real] \<and>
   0 < sum_list [1, 3 :: real] \<and> sum_list [1, 3 :: real] \<le> two_1023 \<and>
   list_all is_finite (snd (calculate_cdf [Finite 1, Finite 3])) \<and>
   calculate_cdf [] = ([], [])"
proof -
  have h1: "[Finite 0, Finite 0] = map Finite [0, 0] \<and> [0, 0] \<noteq> ([] :: real list) \<and>
      (\<forall>x\<in>set [0, 0 :: real]. 0 \<le> x) \<and> sum_list [0, 0 :: real] = 0"
    by simp
  from calculate_cdf_zero_total [of "[Finite 0, Finite 0]", THEN conjunct1, THEN spec, of "[0, 0]"] h1
  have z: "np_sum (np_sort [Finite 0, Finite 0]) = Finite 0"
    and "snd (calculate_cdf [Finite 0, Finite 0]) = replicate (length [Finite 0, Finite 0]) NaN"
    by blast+
  then have b: "snd (calculate_cdf [Finite 0, Finite 0]) = [NaN, NaN]"
    by (simp add: numeral_2_eq_2)
  have h3: "[Finite 1, Finite 3] = map Finite [1, 3] \<and> (\<forall>x\<in>set [1, 3 :: real]. 0 \<le> x) \<and>
      0 < sum_list [1, 3 :: real] \<and> sum_list [1, 3 :: real] \<le> two_1023"
    by (simp add: two_1023_def)
  from calculate_cdf_zero_total [of "[Finite 1, Finite 3]",
      THEN conjunct2, THEN conjunct2, THEN spec, of "[1, 3]"] h3
  have "\<forall>v\<in>set (snd (calculate_cdf [Finite 1, Finite 3])). is_finite v" by blast
  then have c: "list_all is_finite (snd (calculate_cdf [Finite 1, Finite 3]))"
    by (simp only: list_all_iff)
  from calculate_cdf_zero_total [of "[]"]
  have d: "calculate_cdf [] = ([], [])" by blast
  from h1 have h1': "[Finite 0, Finite 0] = map Finite [0, 0] \<and> [0, 0] \<noteq> ([] :: real list) \<and>
      list_all (\<lambda>x. 0 \<le> x) [0, 0 :: real] \<and> sum_list [0, 0 :: real] = 0"
    by simp
  from h3 have h3': "[Finite 1, Finite 3] = map Finite [1, 3] \<and> list_all (\<lambda>x. 0 \<le> x) [1, 3 :: real] \<and>
      0 < sum_list [1, 3 :: real] \<and> sum_list [1, 3 :: real] \<le> two_1023"
    by simp
  from h1' z b h3' c d show ?thesis by blast
qed

subsection \<open>Permutation invariance (C10)\<close>

text \<open>
  C10. For two inputs that are permutations of each other (equal as multisets), with a
  non-zero total, \<open>calculate_cdf\<close> returns identical sorted-error and CDF sequences: the
  result depends on the multiset of error magnitudes only.
\<close>

theorem calculate_cdf_permutation_invariant:
  assumes "mset xs = mset ys" and "np_sum (np_sort xs) \<noteq> Finite 0"
  shows "calculate_cdf xs = calculate_cdf ys"
proof -
  have "sort xs = sorted_list_of_multiset (mset xs)" by simp
  also have "\<dots> = sorted_list_of_multiset (mset ys)" using assms(1) by simp
  also have "\<dots> = sort ys" by simp
  finally have "sort xs = sort ys" .
  then show ?thesis by (simp add: calculate_cdf_def np_sort_def)
qed

text \<open>C10 at two orderings of \<open>{1, 2, 3}\<close>.\<close>

theorem calculate_cdf_permutation_invariant_witness:
  "mset [Finite 3, Finite 1, Finite 2] = mset [Finite 2, Finite 3, Finite 1] \<and>
   np_sum (np_sort [Finite 3, Finite 1, Finite 2]) \<noteq> Finite 0 \<and>
   calculate_cdf [Finite 3, Finite 1, Finite 2] = calculate_cdf [Finite 2, Finite 3, Finite 1] \<and>
   calculate_cdf [Finite 2, Finite 3, Finite 1] =
     ([Finite 1, Finite 2, Finite 3], [Finite (1 / 6), Finite (1 / 2), Finite 1])"
proof -
  have h1: "mset [Finite 3, Finite 1, Finite 2] = mset [Finite 2, Finite 3, Finite 1]"
    by (simp add: add_mset_commute)
  have h2: "np_sum (np_sort [Finite 3, Finite 1, Finite 2]) \<noteq> Finite 0"
    by (simp add: cdf_eval)
  have e: "calculate_cdf [Finite 2, Finite 3, Finite 1] =
     ([Finite 1, Finite 2, Finite 3], [Finite (1 / 6), Finite (1 / 2), Finite 1])"
    by (simp add: cdf_eval)
  from h1 h2 calculate_cdf_permutation_invariant [OF h1 h2] e show ?thesis by blast
qed

section \<open>Properties of the model wrapper\<close>

lemmas create_model_eval =
  NeuralNetworkModel_init_def create_model_def add_def add_Dense_def new_Input_def
  new_Dense_def Let_def config.defs NeuralNetworkModel.defs

lemma init_example:
  "NeuralNetworkModel_init positive_widths () [8] ''tanh'' ''linear'' ''glorot_uniform'' 2 2 100
       (1 / 100) optimizer' (9 / 10) = Inr (example_model optimizer')"
  by (simp add: create_model_eval positive_widths_def example_model_def)


subsection \<open>The optimizer chosen by \<open>train\<close> (C4)\<close>



subsection \<open>An unrecognized optimizer name (C2)\<close>

text \<open>
  C2 as written has the construction fail. \<open>NeuralNetworkModel([8], optimizer="rmsprop")\<close>
  returns an object, the library accepting the three layers: \<open>__init__\<close> stores the name
  and never looks at it.
\<close>

theorem init_rmsprop_counterexample:
  "NeuralNetworkModel_init positive_widths () [8] ''tanh'' ''linear'' ''glorot_uniform'' 2 2 100
       (1 / 100) ''rmsprop'' (9 / 10) = Inr (example_model ''rmsprop'') \<and>
   \<not> isl (NeuralNetworkModel_init positive_widths () [8] ''tanh'' ''linear'' ''glorot_uniform''
            2 2 100 (1 / 100) ''rmsprop'' (9 / 10)
          :: unit error + unit NeuralNetworkModel) \<and>
   optimizer_type (example_model ''rmsprop'') = ''rmsprop''"
  by (simp add: init_example) (simp add: example_model_def)

text \<open>The construction does not read the optimizer name, and raises no \<open>ValueError\<close> of its own.\<close>

lemma add_not_ValueError: "add lib m l = Inl e \<Longrightarrow> e \<noteq> ValueError msg"
  by (auto simp: add_def split: option.splits)

lemma add_Dense_not_ValueError: "add_Dense lib m u a i = Inl e \<Longrightarrow> e \<noteq> ValueError msg"
  by (auto simp: add_Dense_def new_Dense_def split: option.splits sum.splits
        dest: add_not_ValueError)

lemma add_hidden_not_ValueError: "add_hidden lib a i ls m = Inl e \<Longrightarrow> e \<noteq> ValueError msg"
proof (induction ls arbitrary: m)
  case Nil
  then show ?case by simp
next
  case (Cons l ls)
  show ?case
  proof (cases "add_Dense lib m l a i")
    case (Inl e')
    with Cons.prems have "e = e'" by simp
    with add_Dense_not_ValueError [OF Inl] show ?thesis by simp
  next
    case (Inr m')
    with Cons.prems have "add_hidden lib a i ls m' = Inl e" by simp
    then show ?thesis by (rule Cons.IH)
  qed
qed

lemma create_model_not_ValueError:
  assumes "create_model lib w0 self = Inl e"
  shows "e \<noteq> ValueError msg"
proof -
  let ?m0 = "\<lparr>layers = [], compiled = None, weights = w0\<rparr>"
  show ?thesis
  proof (cases "new_Input lib (num_of_inputs_neurons self)")
    case (Inl e')
    with assms have "e = e'" by (simp add: create_model_def)
    with Inl show ?thesis by (auto simp: new_Input_def split: option.splits)
  next
    case il: (Inr il)
    show ?thesis
    proof (cases "add lib ?m0 il")
      case (Inl e')
      with assms il have "e = e'" by (simp add: create_model_def)
      with add_not_ValueError [OF Inl] show ?thesis by simp
    next
      case m1: (Inr m1)
      show ?thesis
      proof (cases "hidden_layers self")
        case Nil
        with assms il m1 show ?thesis by (simp add: create_model_def)
      next
        case (Cons first others)
        show ?thesis
        proof (cases "add_Dense lib m1 first (activation_function self) (weight_init_method self)")
          case (Inl e')
          with assms il m1 Cons have "e = e'" by (simp add: create_model_def)
          with add_Dense_not_ValueError [OF Inl] show ?thesis by simp
        next
          case m2: (Inr m2)
          show ?thesis
          proof (cases "add_hidden lib (activation_function self) (weight_init_method self)
                          others m2")
            case (Inl e')
            with assms il m1 Cons m2 have "e = e'" by (simp add: create_model_def)
            with add_hidden_not_ValueError [OF Inl] show ?thesis by simp
          next
            case (Inr m3)
            with assms il m1 Cons m2
            have "add_Dense lib m3 (num_of_outputs_neurons self) (activation_function_out self)
                    (weight_init_method self) = Inl e"
              by (simp add: create_model_def)
            then show ?thesis by (rule add_Dense_not_ValueError)
          qed
        qed
      qed
    qed
  qed
qed

lemma create_model_optimizer_type:
  "create_model lib w0 (self\<lparr>optimizer_type := name\<rparr>) = create_model lib w0 self"
  by (simp add: create_model_def cong: sum.case_cong list.case_cong)

lemma init_any_name:
  "NeuralNetworkModel_init lib w0 hidden af afo wi ni no ep lr name mom =
     (case NeuralNetworkModel_init lib w0 hidden af afo wi ni no ep lr other mom of
        Inl e \<Rightarrow> Inl e
      | Inr self \<Rightarrow> Inr (self\<lparr>optimizer_type := name\<rparr>))"
proof -
  let ?cfg = "\<lambda>n. \<lparr>hidden_layers = hidden, activation_function = af,
      activation_function_out = afo, weight_init_method = wi, num_of_inputs_neurons = ni,
      num_of_outputs_neurons = no, epochs = ep, learning_rate = lr, optimizer_type = n,
      momentum = mom\<rparr>"
  have "?cfg name = (?cfg other)\<lparr>optimizer_type := name\<rparr>" by simp
  then have "create_model lib w0 (?cfg name) = create_model lib w0 (?cfg other)"
    by (simp only: create_model_optimizer_type)
  then show ?thesis
    by (simp add: NeuralNetworkModel_init_def Let_def config.defs NeuralNetworkModel.defs
          split: sum.splits)
qed

lemma init_stores_name:
  "NeuralNetworkModel_init lib w0 hidden af afo wi ni no ep lr name mom = Inr self \<Longrightarrow>
     optimizer_type self = name"
  by (auto simp: NeuralNetworkModel_init_def Let_def config.defs NeuralNetworkModel.defs
        split: sum.splits)

lemma init_not_ValueError:
  "NeuralNetworkModel_init lib w0 hidden af afo wi ni no ep lr name mom \<noteq> Inl (ValueError msg)"
  by (auto simp: NeuralNetworkModel_init_def Let_def split: sum.splits
        dest: create_model_not_ValueError)

text \<open>
  C2, amended. Constructing a \<open>NeuralNetworkModel\<close> with an optimizer name that is neither
  \<open>adam\<close> nor \<open>sgd\<close> raises no invalid-configuration error: whatever the library accepts or
  refuses, the construction succeeds or fails exactly as it does with any other name, and
  an object it returns has the name stored. The invalid-configuration error is raised when
  \<open>train\<close> is called on that object, for every data and every behaviour of the library's
  \<open>fit\<close>: \<open>fit\<close> is not reached, so no epoch runs.
\<close>

theorem unrecognized_optimizer_rejected_by_train:
  fixes lib :: "'e keras" and initial :: 'w
  assumes "optimizer' \<noteq> ''adam''" and "optimizer' \<noteq> ''sgd''"
  shows "NeuralNetworkModel_init lib initial hidden af afo wi ni no ep lr optimizer' mom =
           (case NeuralNetworkModel_init lib initial hidden af afo wi ni no ep lr other mom of
              Inl e \<Rightarrow> Inl e
            | Inr self \<Rightarrow> Inr (self\<lparr>optimizer_type := optimizer'\<rparr>)) \<and>
         (\<forall>msg. NeuralNetworkModel_init lib initial hidden af afo wi ni no ep lr optimizer' mom
                  \<noteq> Inl (ValueError msg)) \<and>
         (\<forall>self. NeuralNetworkModel_init lib initial hidden af afo wi ni no ep lr optimizer' mom
                    = Inr self \<longrightarrow>
            optimizer_type self = optimizer' \<and>
            (\<forall>(fit :: ('w, 'h, 'f) fit) training_data testing_data.
               train fit self training_data testing_data = Inl (ValueError optimizer_message)))"
proof -
  have t: "train fit self training_data testing_data = Inl (ValueError optimizer_message)"
    if "NeuralNetworkModel_init lib initial hidden af afo wi ni no ep lr optimizer' mom = Inr self"
    for self and fit :: "('w, 'h, 'f) fit" and training_data testing_data
    using init_stores_name [OF that] assms by (simp add: train_def Let_def)
  from init_any_name [of lib initial hidden af afo wi ni no ep lr optimizer' mom other]
    init_not_ValueError [of lib initial hidden af afo wi ni no ep lr optimizer' mom]
    init_stores_name [of lib initial hidden af afo wi ni no ep lr optimizer' mom] t
  show ?thesis by blast
qed

text \<open>The amended C2 at the name \<open>rmsprop\<close>.\<close>

theorem unrecognized_optimizer_rejected_by_train_witness:
  "''rmsprop'' \<noteq> ''adam'' \<and> ''rmsprop'' \<noteq> ''sgd'' \<and>
   NeuralNetworkModel_init positive_widths () [8] ''tanh'' ''linear'' ''glorot_uniform'' 2 2 100
       (1 / 100) ''rmsprop'' (9 / 10) = Inr (example_model ''rmsprop'') \<and>
   train fit_report (example_model ''rmsprop'') [] [] = Inl (ValueError optimizer_message)"
proof -
  have h1: "''rmsprop'' \<noteq> ''adam''" by simp
  have h2: "''rmsprop'' \<noteq> ''sgd''" by simp
  have e: "NeuralNetworkModel_init positive_widths () [8] ''tanh'' ''linear'' ''glorot_uniform''
       2 2 100 (1 / 100) ''rmsprop'' (9 / 10) = Inr (example_model ''rmsprop'')"
    by (rule init_example)
  note t = unrecognized_optimizer_rejected_by_train [OF h1 h2,
      where lib = positive_widths and initial = "()" and hidden = "[8]" and af = "''tanh''"
        and afo = "''linear''" and wi = "''glorot_uniform''" and ni = 2 and no = 2 and ep = 100
        and lr = "1 / 100" and mom = "9 / 10",
      THEN conjunct2, THEN conjunct2, THEN spec, of "example_model ''rmsprop''"]
  from t e have "train fit_report (example_model ''rmsprop'') [] [] =
      Inl (ValueError optimizer_message)"
    by blast
  with h1 h2 e show ?thesis by blast
qed

section \<open>Properties of the data loader\<close>

text \<open>What the loops have accumulated when they return.\<close>

lemma read_files_Inr:
  "read_files env folder_path files data = Inr data' \<Longrightarrow>
     data' = data @ concat (map (\<lambda>file. frame_of env (path_join folder_path file)) files)"
proof (induction files arbitrary: data)
  case Nil
  then show ?case by simp
next
  case (Cons f fs)
  from Cons.prems obtain temp
    where r: "read_csv env (path_join folder_path f) = Inr temp"
      and rest: "read_files env folder_path fs (data @ temp) = Inr data'"
    by (auto simp: Let_def split: sum.splits)
  from Cons.IH [OF rest] r show ?case by (simp add: frame_of_def)
qed

lemma load_folders_Inr:
  "load_folders env is training_data testing_data = Inr (training_data', testing_data') \<Longrightarrow>
     training_data' = training_data @ gathered env (map (\<lambda>i. static_folders_paths ! i) is) \<and>
     testing_data' = testing_data @ gathered env (map (\<lambda>i. dynamic_folders_paths ! i) is)"
proof (induction "is" arbitrary: training_data testing_data)
  case Nil
  then show ?case by (simp add: gathered_def)
next
  case (Cons i "is")
  let ?s = "static_folders_paths ! i" and ?d = "dynamic_folders_paths ! i"
  from Cons.prems obtain se de tr1 te1
    where ls: "listdir env ?s = Inr se" and ld: "listdir env ?d = Inr de"
      and rs: "read_files env ?s (csv_files se) training_data = Inr tr1"
      and rd: "read_files env ?d (csv_files de) testing_data = Inr te1"
      and rest: "load_folders env is tr1 te1 = Inr (training_data', testing_data')"
    by (auto simp: Let_def split: sum.splits)
  from read_files_Inr [OF rs] ls
  have tr1: "tr1 = training_data @ gathered env [?s]"
    by (simp add: gathered_def entries_of_def)
  from read_files_Inr [OF rd] ld
  have te1: "te1 = testing_data @ gathered env [?d]"
    by (simp add: gathered_def entries_of_def)
  from Cons.IH [OF rest] tr1 te1 show ?case by (simp add: gathered_def)
qed

lemma folders_of_range:
  "map (\<lambda>i. static_folders_paths ! i) [0 ..< 2] = static_folders_paths"
  "map (\<lambda>i. dynamic_folders_paths ! i) [0 ..< 2] = dynamic_folders_paths"
  by (simp_all add: static_folders_paths_def dynamic_folders_paths_def upt_rec)

lemma load_data_Inr:
  assumes "load_data env = Inr (training_data, testing_data)"
  shows "training_data = dropna (gathered env static_folders_paths)"
    and "testing_data = dropna (gathered env dynamic_folders_paths)"
proof -
  from assms obtain tr te
    where l: "load_folders env [0 ..< 2] [] [] = Inr (tr, te)"
      and r: "training_data = dropna tr" "testing_data = dropna te"
    by (auto simp: load_data_def Let_def split: sum.splits prod.splits)
  from load_folders_Inr [OF l] have "tr = gathered env static_folders_paths"
    and "te = gathered env dynamic_folders_paths"
    by (simp_all only: folders_of_range append_Nil)
  with r show "training_data = dropna (gathered env static_folders_paths)"
    and "testing_data = dropna (gathered env dynamic_folders_paths)" by simp_all
qed

lemma csv_files_sorted: "sorted (csv_files entries)"
  by (simp add: csv_files_def)

lemma csv_files_mset:
  "mset (csv_files entries) = filter_mset (\<lambda>file. endswith file ''.csv'') (mset entries)"
  by (simp add: csv_files_def)

lemma dropna_id: "(\<forall>r\<in>set data. notna r) \<Longrightarrow> dropna data = data"
  by (simp add: dropna_def)

subsection \<open>Sorted CSV files, concatenated in order (C5)\<close>

text \<open>
  C5. When \<open>load_data\<close> returns, the training table is made of the static folders and the
  testing table of the dynamic folders, as follows: the folders of the pair list are taken
  in order; within each folder only the entries ending in \<open>.csv\<close> are considered (each as
  often as it is listed), in lexicographic order of their names; the tables parsed from
  these files are concatenated in that order, each keeping its row order; rows with a
  missing value are then dropped, so that with no missing value the result is the
  concatenation itself.
\<close>

theorem load_data_concatenates_sorted_csv_files:
  assumes "load_data env = Inr (training_data, testing_data)"
  shows "training_data = dropna (gathered env static_folders_paths) \<and>
         testing_data = dropna (gathered env dynamic_folders_paths) \<and>
         ((\<forall>r\<in>set (gathered env static_folders_paths). notna r) \<longrightarrow>
            training_data = gathered env static_folders_paths) \<and>
         ((\<forall>r\<in>set (gathered env dynamic_folders_paths). notna r) \<longrightarrow>
            testing_data = gathered env dynamic_folders_paths) \<and>
         gathered env folders =
           concat (map (\<lambda>folder_path.
                      concat (map (\<lambda>file. frame_of env (path_join folder_path file))
                                (csv_files (entries_of env folder_path))))
                   folders) \<and>
         sorted (csv_files entries) \<and>
         mset (csv_files entries) = filter_mset (\<lambda>file. endswith file ''.csv'') (mset entries)"
proof -
  note r = load_data_Inr [OF assms]
  have a: "training_data = gathered env static_folders_paths"
    if "\<forall>r\<in>set (gathered env static_folders_paths). notna r"
    using r(1) dropna_id [OF that] by simp
  have b: "testing_data = gathered env dynamic_folders_paths"
    if "\<forall>r\<in>set (gathered env dynamic_folders_paths). notna r"
    using r(2) dropna_id [OF that] by simp
  show ?thesis
    using r a b csv_files_sorted [of entries] csv_files_mset [of entries]
    by (simp add: gathered_def)
qed

text \<open>
  The example of C5: the static files \<open>a.csv\<close> (three rows) and \<open>b.csv\<close> (two rows), listed
  as \<open>b.csv, notes.txt, a.csv\<close>, give a training table of five rows, those of \<open>a.csv\<close>
  first.
\<close>

lemma two_static_files_eval:
  "load_data two_static_files =
     Inr ([mk_row 1 1 1 1, mk_row 2 2 2 2, mk_row 3 3 3 3, mk_row 4 4 4 4, mk_row 5 5 5 5],
          [mk_row 6 6 6 6])"
  by (simp add: load_data_def two_static_files_def upt_rec static_folders_paths_def
        dynamic_folders_paths_def csv_files_def endswith_def startswith_def path_join_def
        dropna_def notna_def mk_row_def Let_def)

lemma two_static_files_gathered:
  "gathered two_static_files static_folders_paths =
     [mk_row 1 1 1 1, mk_row 2 2 2 2, mk_row 3 3 3 3, mk_row 4 4 4 4, mk_row 5 5 5 5]"
  by (simp add: gathered_def entries_of_def frame_of_def two_static_files_def
        static_folders_paths_def csv_files_def endswith_def startswith_def path_join_def)

theorem load_data_concatenates_sorted_csv_files_witness:
  "load_data two_static_files =
     Inr ([mk_row 1 1 1 1, mk_row 2 2 2 2, mk_row 3 3 3 3, mk_row 4 4 4 4, mk_row 5 5 5 5],
          [mk_row 6 6 6 6]) \<and>
   [mk_row 1 1 1 1, mk_row 2 2 2 2, mk_row 3 3 3 3, mk_row 4 4 4 4, mk_row 5 5 5 5] =
     dropna (gathered two_static_files static_folders_paths) \<and>
   gathered two_static_files static_folders_paths =
     frame_of two_static_files ''./dane/f8/stat/a.csv'' @
     frame_of two_static_files ''./dane/f8/stat/b.csv'' \<and>
   length (frame_of two_static_files ''./dane/f8/stat/a.csv'') = 3 \<and>
   length (frame_of two_static_files ''./dane/f8/stat/b.csv'') = 2 \<and>
   csv_files [''b.csv'', ''notes.txt'', ''a.csv''] = [''a.csv'', ''b.csv'']"
proof -
  have h: "load_data two_static_files =
     Inr ([mk_row 1 1 1 1, mk_row 2 2 2 2, mk_row 3 3 3 3, mk_row 4 4 4 4, mk_row 5 5 5 5],
          [mk_row 6 6 6 6])"
    by (rule two_static_files_eval)
  from load_data_concatenates_sorted_csv_files [OF h]
  have a: "[mk_row 1 1 1 1, mk_row 2 2 2 2, mk_row 3 3 3 3, mk_row 4 4 4 4, mk_row 5 5 5 5] =
     dropna (gathered two_static_files static_folders_paths)"
    by blast
  have b: "gathered two_static_files static_folders_paths =
     frame_of two_static_files ''./dane/f8/stat/a.csv'' @
     frame_of two_static_files ''./dane/f8/stat/b.csv''"
    by (simp add: two_static_files_gathered) (simp add: frame_of_def two_static_files_def)
  have c: "length (frame_of two_static_files ''./dane/f8/stat/a.csv'') = 3"
    by (simp add: frame_of_def two_static_files_def)
  have d: "length (frame_of two_static_files ''./dane/f8/stat/b.csv'') = 2"
    by (simp add: frame_of_def two_static_files_def)
  have e: "csv_files [''b.csv'', ''notes.txt'', ''a.csv''] = [''a.csv'', ''b.csv'']"
    by (simp add: csv_files_def endswith_def)
  from h a b c d e show ?thesis by blast
qed

subsection \<open>Rows with a missing value are dropped (C6)\<close>

text \<open>
  C6. When \<open>load_data\<close> returns, after all folders have been processed, neither table has
  a row with a missing value, and each table is exactly the rows without a missing value
  of what was gathered for it, in the gathered order.
\<close>

theorem load_data_drops_rows_with_missing_values:
  assumes "load_data env = Inr (training_data, testing_data)"
  shows "(\<forall>r\<in>set training_data.
            input_X r \<noteq> None \<and> input_Y r \<noteq> None \<and> expected_X r \<noteq> None \<and> expected_Y r \<noteq> None) \<and>
         (\<forall>r\<in>set testing_data.
            input_X r \<noteq> None \<and> input_Y r \<noteq> None \<and> expected_X r \<noteq> None \<and> expected_Y r \<noteq> None) \<and>
         training_data =
           filter (\<lambda>r. input_X r \<noteq> None \<and> input_Y r \<noteq> None \<and> expected_X r \<noteq> None \<and>
                        expected_Y r \<noteq> None)
             (gathered env static_folders_paths) \<and>
         testing_data =
           filter (\<lambda>r. input_X r \<noteq> None \<and> input_Y r \<noteq> None \<and> expected_X r \<noteq> None \<and>
                        expected_Y r \<noteq> None)
             (gathered env dynamic_folders_paths)"
proof -
  note r = load_data_Inr [OF assms]
  have tr: "training_data =
           filter (\<lambda>r. input_X r \<noteq> None \<and> input_Y r \<noteq> None \<and> expected_X r \<noteq> None \<and>
                        expected_Y r \<noteq> None)
             (gathered env static_folders_paths)"
    using r(1) by (simp add: dropna_def notna_def [abs_def])
  have te: "testing_data =
           filter (\<lambda>r. input_X r \<noteq> None \<and> input_Y r \<noteq> None \<and> expected_X r \<noteq> None \<and>
                        expected_Y r \<noteq> None)
             (gathered env dynamic_folders_paths)"
    using r(2) by (simp add: dropna_def notna_def [abs_def])
  have a: "\<forall>r\<in>set training_data.
            input_X r \<noteq> None \<and> input_Y r \<noteq> None \<and> expected_X r \<noteq> None \<and> expected_Y r \<noteq> None"
    by (subst tr) simp
  have b: "\<forall>r\<in>set testing_data.
            input_X r \<noteq> None \<and> input_Y r \<noteq> None \<and> expected_X r \<noteq> None \<and> expected_Y r \<noteq> None"
    by (subst te) simp
  from a b tr te show ?thesis by blast
qed

text \<open>
  The example of C6: from the rows \<open>[1, 2, 3, 4]\<close> and \<open>[5, 6, 7, NaN]\<close> only the first is
  kept, in the training and in the testing table.
\<close>

lemma files_with_missing_value_eval:
  "load_data files_with_missing_value = Inr ([mk_row 1 2 3 4], [mk_row 1 2 3 4])"
  by (simp add: load_data_def files_with_missing_value_def upt_rec static_folders_paths_def
        dynamic_folders_paths_def csv_files_def endswith_def startswith_def path_join_def
        dropna_def notna_def mk_row_def Let_def)

theorem load_data_drops_rows_with_missing_values_witness:
  "load_data files_with_missing_value = Inr ([mk_row 1 2 3 4], [mk_row 1 2 3 4]) \<and>
   gathered files_with_missing_value static_folders_paths =
     [mk_row 1 2 3 4,
      \<lparr>input_X = Some 5, input_Y = Some 6, expected_X = Some 7, expected_Y = None\<rparr>] \<and>
   [mk_row 1 2 3 4] =
     filter (\<lambda>r. input_X r \<noteq> None \<and> input_Y r \<noteq> None \<and> expected_X r \<noteq> None \<and>
                  expected_Y r \<noteq> None)
       (gathered files_with_missing_value static_folders_paths) \<and>
   list_all (\<lambda>r. expected_Y r \<noteq> None) [mk_row 1 2 3 4]"
proof -
  have h: "load_data files_with_missing_value = Inr ([mk_row 1 2 3 4], [mk_row 1 2 3 4])"
    by (rule files_with_missing_value_eval)
  have g: "gathered files_with_missing_value static_folders_paths =
     [mk_row 1 2 3 4,
      \<lparr>input_X = Some 5, input_Y = Some 6, expected_X = Some 7, expected_Y = None\<rparr>]"
    by (simp add: gathered_def entries_of_def frame_of_def files_with_missing_value_def
          static_folders_paths_def csv_files_def endswith_def startswith_def path_join_def)
  from load_data_drops_rows_with_missing_values [OF h]
  have a: "[mk_row 1 2 3 4] =
     filter (\<lambda>r. input_X r \<noteq> None \<and> input_Y r \<noteq> None \<and> expected_X r \<noteq> None \<and>
                  expected_Y r \<noteq> None)
       (gathered files_with_missing_value static_folders_paths)"
    by blast
  from load_data_drops_rows_with_missing_values [OF h]
  have "\<forall>r\<in>set [mk_row 1 2 3 4]. expected_Y r \<noteq> None" by blast
  then have b: "list_all (\<lambda>r. expected_Y r \<noteq> None) [mk_row 1 2 3 4]"
    by (simp only: list_all_iff)
  from h g a b show ?thesis by blast
qed

subsection \<open>The loader returns when its environment does\<close>

text \<open>
  If the four folders are readable and the two tables can be written, \<open>load_data\<close> returns
  a pair of tables.
\<close>

lemma read_files_succeeds:
  "(\<forall>f\<in>set files. \<not> isl (read_csv env (path_join folder_path f))) \<Longrightarrow>
     \<exists>data'. read_files env folder_path files data = Inr data'"
proof (induction files arbitrary: data)
  case Nil
  then show ?case by simp
next
  case (Cons f fs)
  then obtain temp where r: "read_csv env (path_join folder_path f) = Inr temp"
    by (cases "read_csv env (path_join folder_path f)") auto
  from Cons.prems have "\<forall>f\<in>set fs. \<not> isl (read_csv env (path_join folder_path f))" by simp
  from Cons.IH [OF this, of "data @ temp"] r show ?case by (simp add: Let_def)
qed

lemma load_folders_succeeds:
  "(\<forall>i\<in>set is. readable env (static_folders_paths ! i) \<and> readable env (dynamic_folders_paths ! i)) \<Longrightarrow>
     \<exists>result. load_folders env is training_data testing_data = Inr result"
proof (induction "is" arbitrary: training_data testing_data)
  case Nil
  then show ?case by simp
next
  case (Cons i "is")
  let ?s = "static_folders_paths ! i" and ?d = "dynamic_folders_paths ! i"
  from Cons.prems have rs: "readable env ?s" and rd: "readable env ?d" by simp_all
  from rs obtain se where ls: "listdir env ?s = Inr se"
    by (cases "listdir env ?s") (auto simp: readable_def)
  from rd obtain de where ld: "listdir env ?d = Inr de"
    by (cases "listdir env ?d") (auto simp: readable_def)
  from rs ls have "\<forall>f\<in>set (csv_files se). \<not> isl (read_csv env (path_join ?s f))"
    by (simp add: readable_def entries_of_def list_all_iff)
  from read_files_succeeds [OF this, of training_data]
  obtain tr1 where r1: "read_files env ?s (csv_files se) training_data = Inr tr1" by blast
  from rd ld have "\<forall>f\<in>set (csv_files de). \<not> isl (read_csv env (path_join ?d f))"
    by (simp add: readable_def entries_of_def list_all_iff)
  from read_files_succeeds [OF this, of testing_data]
  obtain te1 where r2: "read_files env ?d (csv_files de) testing_data = Inr te1" by blast
  from Cons.prems have "\<forall>i\<in>set is. readable env (static_folders_paths ! i) \<and>
      readable env (dynamic_folders_paths ! i)" by simp
  from Cons.IH [OF this, of tr1 te1] ls ld r1 r2 show ?case by (simp add: Let_def)
qed

lemma load_data_succeeds:
  assumes "\<forall>folder_path\<in>set (static_folders_paths @ dynamic_folders_paths). readable env folder_path"
    and "\<forall>name data. \<not> isl (to_csv env name data)"
  shows "\<exists>training_data testing_data. load_data env = Inr (training_data, testing_data)"
proof -
  from assms(1) have "\<forall>i\<in>set [0 ..< 2]. readable env (static_folders_paths ! i) \<and>
      readable env (dynamic_folders_paths ! i)"
    by (simp add: static_folders_paths_def dynamic_folders_paths_def upt_rec)
  from load_folders_succeeds [OF this, of "[]" "[]"]
  obtain tr te where l: "load_folders env [0 ..< 2] [] [] = Inr (tr, te)" by auto
  from assms(2) have "\<not> isl (to_csv env ''training_data.csv'' (dropna tr))" by blast
  then obtain u where w1: "to_csv env ''training_data.csv'' (dropna tr) = Inr u"
    by (cases "to_csv env ''training_data.csv'' (dropna tr)") auto
  from assms(2) have "\<not> isl (to_csv env ''testing_data.csv'' (dropna te))" by blast
  then obtain v where w2: "to_csv env ''testing_data.csv'' (dropna te) = Inr v"
    by (cases "to_csv env ''testing_data.csv'' (dropna te)") auto
  from l w1 w2 show ?thesis by (simp add: load_data_def Let_def)
qed

end
